theory Spec2Isabelle
  imports Main "HOL-Library.Char_ord" "HOL-Library.List_Lexorder" "HOL-Library.Sublist"
begin

section \<open>The devtool test-image plugin (scripts/lib/devtool/testimage.py)\<close>

text \<open>
  The plugin resolves the requested package names through the recipe-metadata
  provider, builds a fixed list of bbappend statements and hands it to
  \<open>build_image_task\<close>. The embedding follows the two functions of the source,
  \<open>_collect_install_packages\<close> and \<open>test_image\<close>. Everything the source does
  beyond computing a value is made explicit: calls to collaborators and logger output are
  recorded, in order, in a trace of events; the directories on disk are a set that
  \<open>os.makedirs\<close> updates; an exception is the \<open>Inl\<close> branch of a sum.

  A Python \<open>str\<close> is modelled as a \<open>string\<close> whose characters are read as
  code points below 256.
\<close>

subsection \<open>Python string operations used by the plugin\<close>

text \<open>
  \<open>str.isspace\<close> restricted to code points below 256: tab, line feed, vertical tab,
  form feed, carriage return, the four separators 0x1C to 0x1F, space, NEL and the
  no-break space.
\<close>

definition py_isspace :: "char \<Rightarrow> bool" where
  "py_isspace c \<longleftrightarrow>
     c \<in> {CHR 0x09, CHR 0x0A, CHR 0x0B, CHR 0x0C, CHR 0x0D,
          CHR 0x1C, CHR 0x1D, CHR 0x1E, CHR 0x1F, CHR 0x20, CHR 0x85, CHR 0xA0}"

text \<open>
  \<open>s.split()\<close> without a separator: maximal runs of non-whitespace characters; no
  empty token is produced. \<open>cur\<close> is the token being read.
\<close>

fun split_ws :: "string \<Rightarrow> string \<Rightarrow> string list" where
  "split_ws cur [] = (if cur = [] then [] else [cur])"
| "split_ws cur (c # cs) =
     (if py_isspace c
      then (if cur = [] then split_ws [] cs else cur # split_ws [] cs)
      else split_ws (cur @ [c]) cs)"

definition py_split :: "string \<Rightarrow> string list" where
  "py_split s = split_ws [] s"

text \<open>
  \<open>s.split(sep)\<close> with a one-character separator: every occurrence cuts, empty
  pieces are kept, and the empty string gives one empty piece.
\<close>

fun split_on :: "char \<Rightarrow> string \<Rightarrow> string \<Rightarrow> string list" where
  "split_on sep cur [] = [cur]"
| "split_on sep cur (c # cs) =
     (if c = sep then cur # split_on sep [] cs else split_on sep (cur @ [c]) cs)"

definition py_split_on :: "char \<Rightarrow> string \<Rightarrow> string list" where
  "py_split_on sep s = split_on sep [] s"

text \<open>\<open>s.strip()\<close>: whitespace removed at both ends.\<close>

definition py_strip :: "string \<Rightarrow> string" where
  "py_strip s = rev (dropWhile py_isspace (rev (dropWhile py_isspace s)))"

text \<open>\<open>sep.join(xs)\<close>.\<close>

fun py_join :: "string \<Rightarrow> string list \<Rightarrow> string" where
  "py_join sep [] = []"
| "py_join sep [x] = x"
| "py_join sep (x # y # ys) = x @ sep @ py_join sep (y # ys)"

text \<open>\<open>os.path.join(a, b)\<close> of posixpath, for two components.\<close>

definition path_join :: "string \<Rightarrow> string \<Rightarrow> string" where
  "path_join a b =
     (if b \<noteq> [] \<and> hd b = CHR ''/'' then b
      else if a = [] \<or> last a = CHR ''/'' then a @ b
      else a @ ''/'' @ b)"

text \<open>\<open>sorted(set(xs))\<close>: the distinct elements in ascending order; strings compare
  lexicographically by code point.\<close>

definition sorted_set :: "string list \<Rightarrow> string list" where
  "sorted_set xs = sorted_list_of_set (set xs)"

text \<open>Truthiness of an optional string: \<open>None\<close> and the empty string are false.\<close>

fun truthy :: "string option \<Rightarrow> bool" where
  "truthy None = False"
| "truthy (Some s) = (s \<noteq> [])"

subsection \<open>Data model\<close>

text \<open>
  An exception: the plugin's own \<open>DevtoolError\<close> with its message, or any other
  \<open>Exception\<close> raised by a collaborator, with the text \<open>str(exc)\<close> gives.
\<close>

datatype exn = DevtoolError string | OtherError string

fun exn_str :: "exn \<Rightarrow> string" where
  "exn_str (DevtoolError m) = m"
| "exn_str (OtherError m) = m"

text \<open>A recipe's datastore, read through \<open>rd.getVar(name)\<close>.\<close>

type_synonym recipe = "string \<Rightarrow> string option"

text \<open>The parsed command line and the part of the devtool configuration that is read.\<close>

record args =
  imagename :: "string option"
  package :: "string option"

record config =
  workspace_path :: string

text \<open>
  What is observable of one invocation, in order: the calls to collaborators and the
  logger's output (the formatted message).
\<close>

datatype event =
    SetupTinfoil
  | ParseRecipe string
  | Shutdown
  | Makedirs string
  | BuildImageTask string string "string list"
  | LogInfo string
  | LogDebug string

text \<open>
  The collaborators, none of which is defined in this file of the repository. Each call
  returns or raises:
  \<^item> \<open>setup_tinfoil\<close>: the exception raised, if any (the handle itself is opaque);
  \<^item> \<open>parse_recipe\<close>: for a name, the datastore, \<open>None\<close> (any false value), or
    an exception;
  \<^item> \<open>shutdown\<close>: the exception raised by \<open>tinfoil.shutdown()\<close>, if any;
  \<^item> \<open>mkdir_error\<close>: the \<open>OSError\<close> with which the operating system refuses to
    create a directory that does not exist yet, if any;
  \<^item> \<open>mkdir_exists_error\<close>: the \<open>OSError\<close> that \<open>os.mkdir\<close> raises for a
    path that exists already (\<open>FileExistsError\<close>, or another error to which the
    operating system gives priority); its text is Python's and is not computed here;
  \<^item> \<open>build_image_task\<close>: for image name, task and extra_append, the pair of result
    code and output directory, or an exception.
\<close>

record env =
  setup_tinfoil :: "exn option"
  parse_recipe :: "string \<Rightarrow> exn + recipe option"
  shutdown :: "exn option"
  mkdir_error :: "string \<Rightarrow> exn option"
  mkdir_exists_error :: "string \<Rightarrow> exn"
  build_image_task :: "string \<Rightarrow> string \<Rightarrow> string list \<Rightarrow> exn + int \<times> string"

text \<open>The result of an invocation: value or exception, the trace, the directories on disk.\<close>

record outcome =
  result :: "exn + int"
  trace :: "event list"
  dirs_after :: "string set"

subsection \<open>The file system\<close>

text \<open>
  \<open>os.mkdir\<close> and \<open>os.makedirs\<close> of the Python standard library, over the set
  of existing directories. \<open>mkdir\<close> always refuses an existing directory;
  \<open>makedirs\<close> re-raises the error of \<open>mkdir\<close> unless \<open>exist_ok\<close> is set
  and the path is a directory. Intermediate directories are not tracked.
\<close>

definition os_mkdir :: "env \<Rightarrow> string \<Rightarrow> string set \<Rightarrow> exn + string set" where
  "os_mkdir e name ds =
     (if name \<in> ds then Inl (mkdir_exists_error e name)
      else case mkdir_error e name of
             Some x \<Rightarrow> Inl x
           | None \<Rightarrow> Inr (insert name ds))"

definition os_makedirs :: "env \<Rightarrow> string \<Rightarrow> bool \<Rightarrow> string set \<Rightarrow> exn + string set" where
  "os_makedirs e name exist_ok ds =
     (case os_mkdir e name ds of
        Inr ds' \<Rightarrow> Inr ds'
      | Inl x \<Rightarrow> (if \<not> exist_ok \<or> name \<notin> ds then Inl x else Inr ds))"

subsection \<open>\<open>_collect_install_packages\<close>\<close>

text \<open>
  \<open>rd.getVar('PACKAGES')\<close>, with the empty string in place of an unset
  variable, followed by \<open>packages_var.split()\<close>.
\<close>

definition packages_of :: "recipe \<Rightarrow> string list" where
  "packages_of rd = py_split (case rd ''PACKAGES'' of None \<Rightarrow> [] | Some v \<Rightarrow> v)"

text \<open>
  The loop over \<open>package_names\<close> (lines 27 to 43 of the source).
  \<open>install\<close> is the list built so far and \<open>tr\<close> the trace so far; the
  result is the returned list or the exception raised, with the trace at that point. A
  false value returned by \<open>parse_recipe\<close> raises the \<open>DevtoolError\<close> of
  line 32; an exception raised by \<open>parse_recipe\<close> itself propagates.
\<close>

fun collect_loop ::
  "env \<Rightarrow> string list \<Rightarrow> event list \<Rightarrow> string list \<Rightarrow> (exn + string list) \<times> event list" where
  "collect_loop e install tr [] = (Inr install, tr)"
| "collect_loop e install tr (pn # rest) =
     (case parse_recipe e pn of
        Inl x \<Rightarrow> (Inl x, tr @ [ParseRecipe pn])
      | Inr None \<Rightarrow>
          (Inl (DevtoolError (''Unable to find or parse recipe for package '' @ pn)),
           tr @ [ParseRecipe pn])
      | Inr (Some rd) \<Rightarrow>
          (let install1 = install @ [pn];
               packages = packages_of rd;
               ptest_pkg = pn @ ''-ptest''
           in if ptest_pkg \<in> set packages
              then collect_loop e (install1 @ [ptest_pkg])
                     (tr @ [ParseRecipe pn, LogInfo (''Including ptest package '' @ ptest_pkg)])
                     rest
              else collect_loop e install1
                     (tr @ [ParseRecipe pn, LogDebug (''No ptest package found for '' @ pn)])
                     rest))"

definition collect_install_packages ::
  "env \<Rightarrow> event list \<Rightarrow> string list \<Rightarrow> (exn + string list) \<times> event list" where
  "collect_install_packages e tr package_names = collect_loop e [] tr package_names"

subsection \<open>\<open>test_image\<close>\<close>

text \<open>\<open>[p.strip() for p in args.package.split(',') if p.strip()]\<close>\<close>

definition package_names_of :: "string \<Rightarrow> string list" where
  "package_names_of p =
     map py_strip (filter (\<lambda>q. py_strip q \<noteq> []) (py_split_on CHR '','' p))"

definition logdir_of :: "config \<Rightarrow> string" where
  "logdir_of cfg = path_join (workspace_path cfg) ''testimage-logs''"

definition depends_stmt :: string where
  "depends_stmt = ''do_testimage[depends] += \" ${PN}:do_image_complete\"''"

definition extra_append_of :: "string \<Rightarrow> string \<Rightarrow> string list" where
  "extra_append_of logdir pkg_append =
     [''TEST_LOG_DIR = \"'' @ logdir @ ''\"'',
      ''TESTIMAGE_UPDATE_VARS:append = \" TEST_LOG_DIR IMAGE_CLASSES TEST_SUITES DISTRO_FEATURES\"'',
      ''IMAGE_CLASSES += \" testimage\"'',
      depends_stmt,
      ''TEST_SUITES = \"ping ssh ptest\"'',
      ''DISTRO_FEATURES:append = \" ptest\"'',
      ''TEST_RUNQEMUPARAMS = \"slirp\"'',
      ''IMAGE_FSTYPES:append = \" ext4\"'',
      ''QB_DEFAULT_FSTYPE = \"ext4\"'',
      ''IMAGE_INSTALL:append = \" '' @ pkg_append @ ''\"'']"

text \<open>
  The part of \<open>test_image\<close> after the resolution step (lines 65 to 109): the log
  directory, the overlay, the dispatch and the final log line. The call of
  \<open>build_image_task\<close> is recorded with the arguments that vary, the image name,
  the task and \<open>extra_append\<close>; \<open>add_packages\<close> is always \<open>None\<close>.
\<close>

definition build_and_test ::
  "env \<Rightarrow> string \<Rightarrow> config \<Rightarrow> string set \<Rightarrow> event list \<Rightarrow> string list \<Rightarrow> outcome" where
  "build_and_test e img cfg ds tr install_pkgs =
     (let logdir = logdir_of cfg;
          tr1 = tr @ [Makedirs logdir]
      in case os_makedirs e logdir True ds of
           Inl exc \<Rightarrow>
             \<lparr>result = Inl (DevtoolError
                 (''Failed to create test logs directory '' @ logdir @ '': '' @ exn_str exc)),
              trace = tr1, dirs_after = ds\<rparr>
         | Inr ds1 \<Rightarrow>
             (let pkg_append = py_join '' '' (sorted_set install_pkgs);
                  extra_append = extra_append_of logdir pkg_append;
                  tr2 = tr1 @ [LogInfo (''Building and testing image '' @ img
                                 @ '' with packages: '' @ py_join '' '' install_pkgs),
                               BuildImageTask img ''testimage'' extra_append]
              in case build_image_task e img ''testimage'' extra_append of
                   Inl exc \<Rightarrow> \<lparr>result = Inl exc, trace = tr2, dirs_after = ds1\<rparr>
                 | Inr (res, outputdir) \<Rightarrow>
                     (if res = 0
                      then \<lparr>result = Inr res,
                            trace = tr2 @ [LogInfo (''Testimage completed. Logs are in '' @ logdir)],
                            dirs_after = ds1\<rparr>
                      else \<lparr>result = Inr res, trace = tr2, dirs_after = ds1\<rparr>)))"

text \<open>
  The resolution step with its \<open>try\<close>/\<open>finally\<close> (lines 59 to 63): an
  exception of \<open>setup_tinfoil\<close> propagates before the \<open>try\<close> is entered;
  otherwise \<open>shutdown\<close> runs whatever the loop did, and an exception it raises
  replaces the outcome of the loop.
\<close>

definition resolve_step ::
  "env \<Rightarrow> string list \<Rightarrow> (exn + string list) \<times> event list" where
  "resolve_step e package_names =
     (case setup_tinfoil e of
        Some exc \<Rightarrow> (Inl exc, [SetupTinfoil])
      | None \<Rightarrow>
          (let (r, tr) = collect_install_packages e [SetupTinfoil] package_names;
               tr1 = tr @ [Shutdown]
           in case shutdown e of
                Some exc \<Rightarrow> (Inl exc, tr1)
              | None \<Rightarrow> (r, tr1)))"

text \<open>
  \<open>test_image\<close>: the three input checks (lines 49 to 56), then the two steps above.
  \<open>ds\<close> is the set of directories that exist when it is called.
\<close>

definition test_image :: "env \<Rightarrow> args \<Rightarrow> config \<Rightarrow> string set \<Rightarrow> outcome" where
  "test_image e a cfg ds =
     (if \<not> truthy (imagename a)
      then \<lparr>result = Inl (DevtoolError ''Image recipe to test must be specified''),
            trace = [], dirs_after = ds\<rparr>
      else if \<not> truthy (package a)
      then \<lparr>result = Inl (DevtoolError
                ''Package(s) to install must be specified via -p/--package''),
            trace = [], dirs_after = ds\<rparr>
      else
        (let package_names = package_names_of (the (package a))
         in if package_names = []
            then \<lparr>result = Inl (DevtoolError ''No valid package name(s) provided''),
                  trace = [], dirs_after = ds\<rparr>
            else
              (case resolve_step e package_names of
                 (Inl exc, tr) \<Rightarrow> \<lparr>result = Inl exc, trace = tr, dirs_after = ds\<rparr>
               | (Inr install_pkgs, tr) \<Rightarrow>
                   build_and_test e (the (imagename a)) cfg ds tr install_pkgs)))"

subsection \<open>Notions used to state the properties\<close>

text \<open>
  The events the resolution loop can emit: a lookup, the debug line for a missing test
  variant, or the info line for an included one.
\<close>

fun resolution_event :: "event \<Rightarrow> bool" where
  "resolution_event (ParseRecipe pn) = True"
| "resolution_event (LogDebug m) = True"
| "resolution_event (LogInfo m) = prefix ''Including ptest package '' m"
| "resolution_event ev = False"

text \<open>
  What one resolved name contributes to the install list and to the trace, given the
  datastore \<open>rd\<close> it resolves to.
\<close>

definition install_block :: "recipe \<Rightarrow> string \<Rightarrow> string list" where
  "install_block rd pn =
     pn # (if pn @ ''-ptest'' \<in> set (packages_of rd) then [pn @ ''-ptest''] else [])"

definition block_events :: "recipe \<Rightarrow> string \<Rightarrow> event list" where
  "block_events rd pn =
     [ParseRecipe pn,
      if pn @ ''-ptest'' \<in> set (packages_of rd)
      then LogInfo (''Including ptest package '' @ pn @ ''-ptest'')
      else LogDebug (''No ptest package found for '' @ pn)]"

text \<open>The three input checks at the head of \<open>test_image\<close> all pass.\<close>

definition valid_args :: "args \<Rightarrow> bool" where
  "valid_args a \<longleftrightarrow>
     truthy (imagename a) \<and> truthy (package a) \<and> package_names_of (the (package a)) \<noteq> []"

text \<open>
  A statement of the overlay sets the \<open>depends\<close> flag of a task when its left-hand
  side, the text before the first space, ends in \<open>[depends]\<close>.
\<close>

definition stmt_key :: "string \<Rightarrow> string" where
  "stmt_key s = takeWhile (\<lambda>c. c \<noteq> CHR '' '') s"

definition is_depends_stmt :: "string \<Rightarrow> bool" where
  "is_depends_stmt s \<longleftrightarrow> suffix ''[depends]'' (stmt_key s)"

text \<open>
  What follows the call of the invoker in the trace: the final log line, when the call
  returns the code zero.
\<close>

definition completion_events :: "env \<Rightarrow> string \<Rightarrow> string list \<Rightarrow> string \<Rightarrow> event list" where
  "completion_events e img ov logdir =
     (case build_image_task e img ''testimage'' ov of
        Inl exc \<Rightarrow> []
      | Inr (res, outputdir) \<Rightarrow>
          if res = 0 then [LogInfo (''Testimage completed. Logs are in '' @ logdir)] else [])"

text \<open>The names looked up during an invocation, in order.\<close>

fun looked_up :: "event list \<Rightarrow> string list" where
  "looked_up [] = []"
| "looked_up (ParseRecipe pn # evs) = pn # looked_up evs"
| "looked_up (ev # evs) = looked_up evs"

subsection \<open>A concrete setting\<close>

text \<open>
  Two recipes, of which only \<open>bash\<close> lists a test variant among its packages, a
  provider that knows exactly these two, a file system that never refuses and an invoker
  that succeeds. The properties below are instantiated on it.
\<close>

definition rd_bash :: recipe where
  "rd_bash = (\<lambda>v. if v = ''PACKAGES'' then Some ''bash-dbg bash-ptest bash'' else None)"

definition rd_zlib :: recipe where
  "rd_zlib = (\<lambda>v. if v = ''PACKAGES'' then Some ''zlib-dbg zlib'' else None)"

definition example_rd :: "string \<Rightarrow> recipe" where
  "example_rd pn = (if pn = ''bash'' then rd_bash else rd_zlib)"

definition example_env :: env where
  "example_env =
     \<lparr>setup_tinfoil = None,
      parse_recipe = (\<lambda>pn. if pn = ''bash'' \<or> pn = ''zlib'' then Inr (Some (example_rd pn))
                           else Inr None),
      shutdown = None,
      mkdir_error = (\<lambda>d. None),
      mkdir_exists_error =
        (\<lambda>d. OtherError (''[Errno 17] File exists: '' @ [CHR 0x27] @ d @ [CHR 0x27])),
      build_image_task = (\<lambda>img task ov. Inr (0, ''/ws/tmp/deploy''))\<rparr>"

definition example_cfg :: config where
  "example_cfg = \<lparr>workspace_path = ''/ws''\<rparr>"

definition example_args :: args where
  "example_args = \<lparr>imagename = Some ''core-image-minimal'', package = Some ''bash, zlib,bash''\<rparr>"

text \<open>The overlay expected for the request \<open>bash, zlib,bash\<close> in the workspace \<open>/ws\<close>.\<close>

definition example_overlay :: "string list" where
  "example_overlay = extra_append_of ''/ws/testimage-logs'' ''bash bash-ptest zlib''"

text \<open>The same setting on a file system that refuses to create any directory.\<close>

definition readonly_env :: env where
  "readonly_env =
     \<lparr>setup_tinfoil = None,
      parse_recipe = (\<lambda>pn. if pn = ''bash'' \<or> pn = ''zlib'' then Inr (Some (example_rd pn))
                           else Inr None),
      shutdown = None,
      mkdir_error = (\<lambda>d. Some (OtherError ''[Errno 30] Read-only file system'')),
      mkdir_exists_error = (\<lambda>d. OtherError ''[Errno 30] Read-only file system''),
      build_image_task = (\<lambda>img task ov. Inr (0, ''/ws/tmp/deploy''))\<rparr>"

text \<open>
  The first setting with a provider whose \<open>shutdown\<close> raises, and with a provider
  that cannot be set up.
\<close>

definition shutdown_raises_env :: env where
  "shutdown_raises_env =
     \<lparr>setup_tinfoil = None,
      parse_recipe = (\<lambda>pn. if pn = ''bash'' \<or> pn = ''zlib'' then Inr (Some (example_rd pn))
                           else Inr None),
      shutdown = Some (OtherError ''shutdown failed''),
      mkdir_error = (\<lambda>d. None),
      mkdir_exists_error =
        (\<lambda>d. OtherError (''[Errno 17] File exists: '' @ [CHR 0x27] @ d @ [CHR 0x27])),
      build_image_task = (\<lambda>img task ov. Inr (0, ''/ws/tmp/deploy''))\<rparr>"

definition setup_raises_env :: env where
  "setup_raises_env =
     \<lparr>setup_tinfoil = Some (OtherError ''bitbake server failed to start''),
      parse_recipe = (\<lambda>pn. if pn = ''bash'' \<or> pn = ''zlib'' then Inr (Some (example_rd pn))
                           else Inr None),
      shutdown = None,
      mkdir_error = (\<lambda>d. None),
      mkdir_exists_error =
        (\<lambda>d. OtherError (''[Errno 17] File exists: '' @ [CHR 0x27] @ d @ [CHR 0x27])),
      build_image_task = (\<lambda>img task ov. Inr (0, ''/ws/tmp/deploy''))\<rparr>"

text \<open>A request whose second name is unknown to the provider, and the request of Scenario 4.\<close>

definition unknown_args :: args where
  "unknown_args =
     \<lparr>imagename = Some ''core-image-minimal'', package = Some ''zlib,nonexistent-pkg,bash''\<rparr>"

definition scenario4_args :: args where
  "scenario4_args =
     \<lparr>imagename = Some ''core-image-minimal'', package = Some ''nonexistent-pkg''\<rparr>"

section \<open>Properties\<close>

subsection \<open>The resolution loop\<close>

lemma collect_loop_prefix:
  assumes "\<forall>pn\<in>set pre. parse_recipe e pn = Inr (Some (rd pn))"
  shows "collect_loop e install tr (pre @ post) =
           collect_loop e (install @ concat (map (\<lambda>pn. install_block (rd pn) pn) pre))
             (tr @ concat (map (\<lambda>pn. block_events (rd pn) pn) pre)) post"
  using assms
proof (induction pre arbitrary: install tr)
  case Nil
  then show ?case by simp
next
  case (Cons pn rest)
  have here: "parse_recipe e pn = Inr (Some (rd pn))" using Cons.prems by simp
  have later: "\<forall>q\<in>set rest. parse_recipe e q = Inr (Some (rd q))" using Cons.prems by simp
  show ?case
    by (simp add: here Cons.IH [OF later] install_block_def block_events_def Let_def)
qed

lemma collect_loop_resolved:
  assumes "\<forall>pn\<in>set pns. parse_recipe e pn = Inr (Some (rd pn))"
  shows "collect_loop e install tr pns =
           (Inr (install @ concat (map (\<lambda>pn. install_block (rd pn) pn) pns)),
            tr @ concat (map (\<lambda>pn. block_events (rd pn) pn) pns))"
  using assms
proof (induction pns arbitrary: install tr)
  case Nil
  then show ?case by simp
next
  case (Cons pn rest)
  have here: "parse_recipe e pn = Inr (Some (rd pn))" using Cons.prems by simp
  have later: "\<forall>q\<in>set rest. parse_recipe e q = Inr (Some (rd q))" using Cons.prems by simp
  show ?case
    by (simp add: here Cons.IH [OF later] install_block_def block_events_def Let_def)
qed

lemma collect_loop_unresolved:
  assumes "\<forall>pn\<in>set pre. parse_recipe e pn = Inr (Some (rd pn))"
    and "parse_recipe e bad = Inr None"
  shows "collect_loop e install tr (pre @ bad # post) =
           (Inl (DevtoolError (''Unable to find or parse recipe for package '' @ bad)),
            tr @ concat (map (\<lambda>pn. block_events (rd pn) pn) pre) @ [ParseRecipe bad])"
  using assms(1)
proof (induction pre arbitrary: install tr)
  case Nil
  then show ?case by (simp add: assms(2))
next
  case (Cons pn rest)
  have here: "parse_recipe e pn = Inr (Some (rd pn))" using Cons.prems by simp
  have later: "\<forall>q\<in>set rest. parse_recipe e q = Inr (Some (rd q))" using Cons.prems by simp
  show ?case
    by (simp add: here Cons.IH [OF later] block_events_def Let_def)
qed

lemma collect_loop_trace:
  "\<exists>evs. snd (collect_loop e install tr pns) = tr @ evs \<and> list_all resolution_event evs"
proof (induction pns arbitrary: install tr)
  case Nil
  then show ?case by simp
next
  case (Cons pn rest)
  show ?case
  proof (cases "parse_recipe e pn")
    case (Inl x)
    then show ?thesis by simp
  next
    case (Inr r)
    show ?thesis
    proof (cases r)
      case None
      with Inr show ?thesis by simp
    next
      case (Some rd)
      show ?thesis
      proof (cases "pn @ ''-ptest'' \<in> set (packages_of rd)")
        case True
        obtain evs where
          "snd (collect_loop e (install @ [pn] @ [pn @ ''-ptest''])
                 (tr @ [ParseRecipe pn, LogInfo (''Including ptest package '' @ pn @ ''-ptest'')]) rest)
           = (tr @ [ParseRecipe pn, LogInfo (''Including ptest package '' @ pn @ ''-ptest'')]) @ evs"
          and "list_all resolution_event evs"
          using Cons.IH by blast
        then show ?thesis using Inr Some True
          by (intro exI [of _ "[ParseRecipe pn, LogInfo (''Including ptest package '' @ pn @ ''-ptest'')] @ evs"])
             (simp add: Let_def)
      next
        case False
        obtain evs where
          "snd (collect_loop e (install @ [pn])
                 (tr @ [ParseRecipe pn, LogDebug (''No ptest package found for '' @ pn)]) rest)
           = (tr @ [ParseRecipe pn, LogDebug (''No ptest package found for '' @ pn)]) @ evs"
          and "list_all resolution_event evs"
          using Cons.IH by blast
        then show ?thesis using Inr Some False
          by (intro exI [of _ "[ParseRecipe pn, LogDebug (''No ptest package found for '' @ pn)] @ evs"])
             (simp add: Let_def)
      qed
    qed
  qed
qed


subsection \<open>The shape of an invocation\<close>

lemma resolve_step_setup_raises:
  "setup_tinfoil e = Some x \<Longrightarrow> resolve_step e pns = (Inl x, [SetupTinfoil])"
  by (simp add: resolve_step_def)

lemma resolve_step_shape:
  assumes "setup_tinfoil e = None"
  shows "\<exists>evs. snd (resolve_step e pns) = SetupTinfoil # evs @ [Shutdown]
               \<and> list_all resolution_event evs"
proof -
  obtain evs where evs: "snd (collect_loop e [] [SetupTinfoil] pns) = [SetupTinfoil] @ evs"
    and res: "list_all resolution_event evs"
    using collect_loop_trace by blast
  have "snd (resolve_step e pns) = SetupTinfoil # evs @ [Shutdown]"
    using assms evs
    by (cases "collect_loop e [] [SetupTinfoil] pns")
       (simp add: resolve_step_def collect_install_packages_def Let_def split: option.splits)
  with res show ?thesis by blast
qed

lemma resolve_step_events:
  assumes "ev \<in> set (snd (resolve_step e pns))"
  shows "ev = SetupTinfoil \<or> ev = Shutdown \<or> resolution_event ev"
proof (cases "setup_tinfoil e")
  case (Some x)
  with assms show ?thesis by (simp add: resolve_step_setup_raises)
next
  case None
  then obtain evs where "snd (resolve_step e pns) = SetupTinfoil # evs @ [Shutdown]"
    and "list_all resolution_event evs"
    using resolve_step_shape by blast
  with assms show ?thesis by (auto simp: list_all_iff)
qed

lemma test_image_invalid:
  assumes "\<not> valid_args a"
  shows "trace (test_image e a cfg ds) = []"
    and "dirs_after (test_image e a cfg ds) = ds"
    and "\<exists>m. result (test_image e a cfg ds) = Inl (DevtoolError m)"
  using assms by (auto simp: test_image_def valid_args_def Let_def)

lemma test_image_valid:
  assumes "valid_args a"
  shows "test_image e a cfg ds =
     (case resolve_step e (package_names_of (the (package a))) of
        (Inl exc, tr) \<Rightarrow> \<lparr>result = Inl exc, trace = tr, dirs_after = ds\<rparr>
      | (Inr install_pkgs, tr) \<Rightarrow>
          build_and_test e (the (imagename a)) cfg ds tr install_pkgs)"
  using assms by (simp add: test_image_def valid_args_def Let_def)

lemma nonempty_trace_valid:
  "ev \<in> set (trace (test_image e a cfg ds)) \<Longrightarrow> valid_args a"
  using test_image_invalid(1) [of a e cfg ds] by (cases "valid_args a") auto

subsection \<open>The concrete setting evaluated\<close>

lemma packages_of_bash: "packages_of rd_bash = [''bash-dbg'', ''bash-ptest'', ''bash'']"
  by (simp add: packages_of_def rd_bash_def py_split_def py_isspace_def)

lemma packages_of_zlib: "packages_of rd_zlib = [''zlib-dbg'', ''zlib'']"
  by (simp add: packages_of_def rd_zlib_def py_split_def py_isspace_def)

lemma subseq_blocks: "subseq pns (concat (map (\<lambda>pn. pn # extra pn) pns))"
  by (induction pns) (auto intro: subseq_Cons2 list_emb_append2 simp del: subseq_Cons2_iff)

lemma blocks_flags:
  "concat (map (\<lambda>pn. pn # (if P pn then [f pn] else [])) pns)
     = concat (map2 (\<lambda>pn b. pn # (if b then [f pn] else [])) pns (map P pns))"
  by (induction pns) auto

subsection \<open>Claims about the resolver\<close>

text \<open>
  C1. Let the names \<open>pre\<close> all resolve. The loop, run on \<open>pre\<close> followed
  by any further names, reaches those further names with an install list extended by one
  block per name of \<open>pre\<close>, in order: the name, followed by its test variant
  \<open>pn-ptest\<close> if and only if that exact token is among the whitespace-split tokens
  of the \<open>PACKAGES\<close> variable of the record the name resolves to. A missing test
  variant raises nothing, and on \<open>pre\<close> alone the resolver returns that list.
\<close>

theorem ptest_added_iff_listed:
  assumes "\<forall>pn\<in>set pre. parse_recipe e pn = Inr (Some (rd pn))"
  shows "collect_loop e install tr (pre @ post) =
           collect_loop e
             (install @ concat (map (\<lambda>pn. pn # (if pn @ ''-ptest'' \<in> set (packages_of (rd pn))
                                                then [pn @ ''-ptest''] else [])) pre))
             (tr @ concat (map (\<lambda>pn. block_events (rd pn) pn) pre)) post
       \<and> fst (collect_install_packages e tr pre) =
           Inr (concat (map (\<lambda>pn. pn # (if pn @ ''-ptest'' \<in> set (packages_of (rd pn))
                                          then [pn @ ''-ptest''] else [])) pre))"
proof -
  have blocks: "(\<lambda>pn. install_block (rd pn) pn)
                  = (\<lambda>pn. pn # (if pn @ ''-ptest'' \<in> set (packages_of (rd pn))
                                then [pn @ ''-ptest''] else []))"
    by (simp add: install_block_def fun_eq_iff)
  have "fst (collect_install_packages e tr pre) =
          Inr (concat (map (\<lambda>pn. install_block (rd pn) pn) pre))"
    using collect_loop_prefix [OF assms, of "[]" tr "[]"]
    by (simp add: collect_install_packages_def)
  then show ?thesis
    using collect_loop_prefix [OF assms, of install tr post] by (simp add: blocks)
qed

theorem ptest_added_iff_listed_witness:
  "parse_recipe example_env ''zlib'' = Inr (Some (example_rd ''zlib''))
   \<and> parse_recipe example_env ''bash'' = Inr (Some (example_rd ''bash''))
   \<and> fst (collect_install_packages example_env [] [''zlib'', ''bash''])
       = Inr [''zlib'', ''bash'', ''bash-ptest'']"
proof -
  have h: "\<forall>pn\<in>set [''zlib'', ''bash'']. parse_recipe example_env pn = Inr (Some (example_rd pn))"
    by (simp add: example_env_def)
  show ?thesis
    using h ptest_added_iff_listed [OF h, of "[]" "[]" "[]"]
    by (simp add: example_rd_def packages_of_bash packages_of_zlib)
qed

text \<open>
  C2. When every requested name resolves, the list returned contains every requested name,
  has the requested names as a subsequence in request order, and is made of one block per
  requested name: the name alone, or the name immediately followed by its test variant.
  This also holds for the empty list, which \<open>test_image\<close> never passes.
\<close>

theorem install_list_in_request_order:
  assumes "\<forall>pn\<in>set pns. parse_recipe e pn = Inr (Some (rd pn))"
  shows "\<exists>install. fst (collect_install_packages e tr pns) = Inr install
           \<and> set pns \<subseteq> set install
           \<and> subseq pns install
           \<and> (\<exists>bs. length bs = length pns
                 \<and> install = concat (map2 (\<lambda>pn b. pn # (if b then [pn @ ''-ptest''] else []))
                                        pns bs))"
proof -
  let ?P = "\<lambda>pn. pn @ ''-ptest'' \<in> set (packages_of (rd pn))"
  let ?install = "concat (map (\<lambda>pn. pn # (if ?P pn then [pn @ ''-ptest''] else [])) pns)"
  have res: "fst (collect_install_packages e tr pns) = Inr ?install"
    using collect_loop_resolved [OF assms, of "[]" tr]
    by (simp add: collect_install_packages_def install_block_def)
  have sub: "subseq pns ?install" by (rule subseq_blocks)
  have mem: "set pns \<subseteq> set ?install" by auto
  have "?install = concat (map2 (\<lambda>pn b. pn # (if b then [pn @ ''-ptest''] else []))
                             pns (map ?P pns))"
    by (rule blocks_flags)
  then have "\<exists>bs. length bs = length pns
                 \<and> ?install = concat (map2 (\<lambda>pn b. pn # (if b then [pn @ ''-ptest''] else []))
                                        pns bs)"
    by (intro exI [of _ "map ?P pns"]) simp
  with res sub mem show ?thesis by blast
qed

theorem install_list_in_request_order_witness:
  "parse_recipe example_env ''bash'' = Inr (Some (example_rd ''bash''))
   \<and> parse_recipe example_env ''zlib'' = Inr (Some (example_rd ''zlib''))
   \<and> fst (collect_install_packages example_env [] [''bash'', ''zlib''])
       = Inr [''bash'', ''bash-ptest'', ''zlib'']
   \<and> subseq [''bash'', ''zlib''] [''bash'', ''bash-ptest'', ''zlib'']"
proof -
  have h: "\<forall>pn\<in>set [''bash'', ''zlib'']. parse_recipe example_env pn = Inr (Some (example_rd pn))"
    by (simp add: example_env_def)
  have run: "fst (collect_install_packages example_env [] [''bash'', ''zlib''])
               = Inr [''bash'', ''bash-ptest'', ''zlib'']"
    by (simp add: collect_install_packages_def example_env_def example_rd_def
          packages_of_bash packages_of_zlib Let_def)
  obtain install where
    "fst (collect_install_packages example_env [] [''bash'', ''zlib'']) = Inr install"
    and "subseq [''bash'', ''zlib''] install"
    using install_list_in_request_order [OF h, of "[]"] by blast
  with run h show ?thesis by simp
qed

subsection \<open>The steps after resolution\<close>

lemma package_names_of_Nil: "package_names_of [] = []"
  by (simp add: package_names_of_def py_split_on_def py_strip_def)

lemma build_and_test_mkdir_raises:
  assumes "os_makedirs e (logdir_of cfg) True ds = Inl exc"
  shows "build_and_test e img cfg ds tr install =
           \<lparr>result = Inl (DevtoolError (''Failed to create test logs directory ''
                                          @ logdir_of cfg @ '': '' @ exn_str exc)),
            trace = tr @ [Makedirs (logdir_of cfg)], dirs_after = ds\<rparr>"
  using assms by (simp add: build_and_test_def Let_def)

lemma build_and_test_mkdir_ok:
  assumes "os_makedirs e (logdir_of cfg) True ds = Inr ds1"
    and "ov = extra_append_of (logdir_of cfg) (py_join '' '' (sorted_set install))"
  shows "trace (build_and_test e img cfg ds tr install) =
           tr @ [Makedirs (logdir_of cfg),
                 LogInfo (''Building and testing image '' @ img @ '' with packages: ''
                          @ py_join '' '' install),
                 BuildImageTask img ''testimage'' ov]
              @ completion_events e img ov (logdir_of cfg)"
    and "result (build_and_test e img cfg ds tr install) =
           (case build_image_task e img ''testimage'' ov of
              Inl exc \<Rightarrow> Inl exc
            | Inr (res, outputdir) \<Rightarrow> Inr res)"
    and "dirs_after (build_and_test e img cfg ds tr install) = ds1"
  using assms
  by (simp_all add: build_and_test_def completion_events_def Let_def
        split: sum.splits prod.splits)

lemma completion_events_cases:
  "ev \<in> set (completion_events e img ov logdir) \<Longrightarrow>
     ev = LogInfo (''Testimage completed. Logs are in '' @ logdir)"
  by (auto simp: completion_events_def split: sum.splits prod.splits if_splits)


lemma test_image_cases:
  assumes "valid_args a"
  obtains
    (resolve_raises) exc tr where
      "resolve_step e (package_names_of (the (package a))) = (Inl exc, tr)"
      "test_image e a cfg ds = \<lparr>result = Inl exc, trace = tr, dirs_after = ds\<rparr>"
  | (mkdir_raises) install tr exc where
      "resolve_step e (package_names_of (the (package a))) = (Inr install, tr)"
      "os_makedirs e (logdir_of cfg) True ds = Inl exc"
      "test_image e a cfg ds =
         \<lparr>result = Inl (DevtoolError (''Failed to create test logs directory ''
                                        @ logdir_of cfg @ '': '' @ exn_str exc)),
          trace = tr @ [Makedirs (logdir_of cfg)], dirs_after = ds\<rparr>"
  | (dispatched) install tr ds1 where
      "resolve_step e (package_names_of (the (package a))) = (Inr install, tr)"
      "os_makedirs e (logdir_of cfg) True ds = Inr ds1"
      "test_image e a cfg ds = build_and_test e (the (imagename a)) cfg ds tr install"
proof (cases "resolve_step e (package_names_of (the (package a)))")
  case (Pair r tr)
  show ?thesis
  proof (cases r)
    case (Inl exc)
    with Pair assms show ?thesis
      by (intro resolve_raises [of exc tr]) (simp_all add: test_image_valid)
  next
    case (Inr install)
    show ?thesis
    proof (cases "os_makedirs e (logdir_of cfg) True ds")
      case (Inl exc)
      with Pair Inr assms show ?thesis
        by (intro mkdir_raises [of install tr exc])
           (simp_all add: test_image_valid build_and_test_mkdir_raises)
    next
      case (Inr ds1)
      with Pair \<open>r = Inr install\<close> assms show ?thesis
        by (intro dispatched [of install tr ds1]) (simp_all add: test_image_valid)
    qed
  qed
qed

lemma resolve_step_no_dispatch:
  assumes "resolve_step e pns = (r, tr)"
  shows "BuildImageTask i t ov \<notin> set tr" and "Makedirs d \<notin> set tr"
    and "LogInfo (''Testimage completed. Logs are in '' @ logdir) \<notin> set tr"
proof -
  have ev: "\<And>ev. ev \<in> set tr \<Longrightarrow> ev = SetupTinfoil \<or> ev = Shutdown \<or> resolution_event ev"
    using resolve_step_events [of _ e pns] assms by simp
  show "BuildImageTask i t ov \<notin> set tr" using ev by fastforce
  show "Makedirs d \<notin> set tr" using ev by fastforce
  show "LogInfo (''Testimage completed. Logs are in '' @ logdir) \<notin> set tr"
    using ev by fastforce
qed

lemma dispatch_reached:
  assumes "BuildImageTask img task ov \<in> set (trace (test_image e a cfg ds))"
  obtains install tr ds1 where
    "valid_args a"
    "resolve_step e (package_names_of (the (package a))) = (Inr install, tr)"
    "os_makedirs e (logdir_of cfg) True ds = Inr ds1"
    "test_image e a cfg ds = build_and_test e img cfg ds tr install"
    "img = the (imagename a)" "task = ''testimage''"
    "ov = extra_append_of (logdir_of cfg) (py_join '' '' (sorted_set install))"
proof -
  have valid: "valid_args a" using assms by (rule nonempty_trace_valid)
  from valid show ?thesis
  proof (cases rule: test_image_cases [where e = e and cfg = cfg and ds = ds])
    case (resolve_raises exc tr)
    with assms resolve_step_no_dispatch(1) show ?thesis by fastforce
  next
    case (mkdir_raises install tr exc)
    with assms resolve_step_no_dispatch(1) show ?thesis by fastforce
  next
    case (dispatched install tr ds1)
    let ?ov = "extra_append_of (logdir_of cfg) (py_join '' '' (sorted_set install))"
    have tr: "trace (test_image e a cfg ds) =
           tr @ [Makedirs (logdir_of cfg),
                 LogInfo (''Building and testing image '' @ the (imagename a)
                          @ '' with packages: '' @ py_join '' '' install),
                 BuildImageTask (the (imagename a)) ''testimage'' ?ov]
              @ completion_events e (the (imagename a)) ?ov (logdir_of cfg)"
      using dispatched build_and_test_mkdir_ok(1) [OF dispatched(2) refl] by simp
    have "BuildImageTask img task ov \<notin> set tr"
      using resolve_step_no_dispatch(1) [OF dispatched(1)] .
    moreover have "BuildImageTask img task ov
                     \<notin> set (completion_events e (the (imagename a)) ?ov (logdir_of cfg))"
      using completion_events_cases by blast
    ultimately have "img = the (imagename a) \<and> task = ''testimage'' \<and> ov = ?ov"
      using assms tr by auto
    with valid dispatched show ?thesis by (intro that [of install tr ds1]) simp_all
  qed
qed


text \<open>The order in which strings are sorted: lexicographic, characters by code point.\<close>

lemma string_order_lexicographic:
  "(xs :: string) < ys \<longleftrightarrow> (xs, ys) \<in> lexord {(c, d). of_char c < (of_char d :: nat)}"
  by (simp add: list_less_def less_char_def)

lemma sorted_set_props:
  "set (sorted_set xs) = set xs" "distinct (sorted_set xs)" "sorted (sorted_set xs)"
  by (simp_all add: sorted_set_def)

lemma last_extra_append:
  "extra_append_of logdir pkgs \<noteq> []"
  "last (extra_append_of logdir pkgs) = ''IMAGE_INSTALL:append = \" '' @ pkgs @ ''\"''"
  by (simp_all add: extra_append_of_def)

subsection \<open>The concrete runs\<close>

lemma example_names: "package_names_of ''bash, zlib,bash'' = [''bash'', ''zlib'', ''bash'']"
  by (simp add: package_names_of_def py_split_on_def py_strip_def py_isspace_def)

lemma example_resolve:
  "resolve_step example_env [''bash'', ''zlib'', ''bash''] =
     (Inr [''bash'', ''bash-ptest'', ''zlib'', ''bash'', ''bash-ptest''],
      [SetupTinfoil,
       ParseRecipe ''bash'', LogInfo ''Including ptest package bash-ptest'',
       ParseRecipe ''zlib'', LogDebug ''No ptest package found for zlib'',
       ParseRecipe ''bash'', LogInfo ''Including ptest package bash-ptest'',
       Shutdown])"
  by (simp add: resolve_step_def collect_install_packages_def example_env_def example_rd_def
        packages_of_bash packages_of_zlib Let_def)

lemma sorted_set_sort: "sorted_set xs = sort (remdups xs)"
  unfolding sorted_set_def by (rule sorted_list_of_set_sort_remdups)

lemma example_sorted:
  "sorted_set [''bash'', ''bash-ptest'', ''zlib'', ''bash'', ''bash-ptest'']
     = [''bash'', ''bash-ptest'', ''zlib'']"
  by (simp add: sorted_set_sort)

lemma example_logdir: "logdir_of example_cfg = ''/ws/testimage-logs''"
  by (simp add: logdir_of_def example_cfg_def path_join_def)

lemma example_run:
  "test_image example_env example_args example_cfg {} =
     \<lparr>result = Inr 0,
      trace =
        [SetupTinfoil,
         ParseRecipe ''bash'', LogInfo ''Including ptest package bash-ptest'',
         ParseRecipe ''zlib'', LogDebug ''No ptest package found for zlib'',
         ParseRecipe ''bash'', LogInfo ''Including ptest package bash-ptest'',
         Shutdown,
         Makedirs ''/ws/testimage-logs'',
         LogInfo ''Building and testing image core-image-minimal with packages: bash bash-ptest zlib bash bash-ptest'',
         BuildImageTask ''core-image-minimal'' ''testimage'' example_overlay,
         LogInfo ''Testimage completed. Logs are in /ws/testimage-logs''],
      dirs_after = {''/ws/testimage-logs''}\<rparr>"
proof -
  have mk: "os_makedirs example_env ''/ws/testimage-logs'' True {} = Inr {''/ws/testimage-logs''}"
    by (simp add: os_makedirs_def os_mkdir_def example_env_def)
  have call: "build_image_task example_env img task ov = Inr (0, ''/ws/tmp/deploy'')" for img task ov
    by (simp add: example_env_def)
  show ?thesis
    by (simp add: test_image_def example_args_def example_names example_resolve
          build_and_test_def example_logdir mk call example_sorted example_overlay_def Let_def)
qed

lemma example_dispatch:
  "BuildImageTask ''core-image-minimal'' ''testimage'' example_overlay
     \<in> set (trace (test_image example_env example_args example_cfg {}))"
  by (simp add: example_run)

lemma unknown_names:
  "package_names_of ''zlib,nonexistent-pkg,bash'' = [''zlib''] @ ''nonexistent-pkg'' # [''bash'']"
  by (simp add: package_names_of_def py_split_on_def py_strip_def py_isspace_def)

lemma unknown_run:
  "test_image example_env unknown_args example_cfg {} =
     \<lparr>result = Inl (DevtoolError ''Unable to find or parse recipe for package nonexistent-pkg''),
      trace = [SetupTinfoil,
               ParseRecipe ''zlib'', LogDebug ''No ptest package found for zlib'',
               ParseRecipe ''nonexistent-pkg'',
               Shutdown],
      dirs_after = {}\<rparr>"
proof -
  have "resolve_step example_env [''zlib'', ''nonexistent-pkg'', ''bash''] =
     (Inl (DevtoolError ''Unable to find or parse recipe for package nonexistent-pkg''),
      [SetupTinfoil,
       ParseRecipe ''zlib'', LogDebug ''No ptest package found for zlib'',
       ParseRecipe ''nonexistent-pkg'',
       Shutdown])"
    by (simp add: resolve_step_def collect_install_packages_def example_env_def example_rd_def
          packages_of_zlib Let_def)
  then show ?thesis
    using unknown_names by (simp add: test_image_def unknown_args_def Let_def)
qed

lemma scenario4_names: "package_names_of ''nonexistent-pkg'' = [''nonexistent-pkg'']"
  by (simp add: package_names_of_def py_split_on_def py_strip_def py_isspace_def)

lemma readonly_resolve:
  "resolve_step readonly_env [''bash'', ''zlib'', ''bash''] =
     (Inr [''bash'', ''bash-ptest'', ''zlib'', ''bash'', ''bash-ptest''],
      [SetupTinfoil,
       ParseRecipe ''bash'', LogInfo ''Including ptest package bash-ptest'',
       ParseRecipe ''zlib'', LogDebug ''No ptest package found for zlib'',
       ParseRecipe ''bash'', LogInfo ''Including ptest package bash-ptest'',
       Shutdown])"
  by (simp add: resolve_step_def collect_install_packages_def readonly_env_def example_rd_def
        packages_of_bash packages_of_zlib Let_def)

lemma readonly_refused:
  "os_makedirs readonly_env ''/ws/testimage-logs'' True {}
     = Inl (OtherError ''[Errno 30] Read-only file system'')"
  by (simp add: os_makedirs_def os_mkdir_def readonly_env_def)

lemma readonly_fresh_reaches_makedirs:
  "Makedirs ''/ws/testimage-logs''
     \<in> set (trace (test_image readonly_env example_args example_cfg {}))"
  by (simp add: test_image_def example_args_def example_names readonly_resolve
        build_and_test_def example_logdir readonly_refused Let_def)

lemma readonly_existing_reaches_makedirs:
  "Makedirs ''/ws/testimage-logs''
     \<in> set (trace (test_image readonly_env example_args example_cfg {''/ws/testimage-logs''}))"
proof -
  have mk: "os_makedirs readonly_env ''/ws/testimage-logs'' True {''/ws/testimage-logs''}
              = Inr {''/ws/testimage-logs''}"
    by (simp add: os_makedirs_def os_mkdir_def)
  have call: "build_image_task readonly_env img task ov = Inr (0, ''/ws/tmp/deploy'')" for img task ov
    by (simp add: readonly_env_def)
  show ?thesis
    by (simp add: test_image_def example_args_def example_names readonly_resolve
          build_and_test_def example_logdir mk call Let_def)
qed

subsection \<open>Claims about the overlay and the dispatch\<close>

text \<open>
  C3. Whenever the invoker is called, the last statement of the overlay it receives is
  \<open>IMAGE_INSTALL:append = " L"\<close> where \<open>L\<close> is the space-joined form of a list
  that has the same elements as the resolved install list, has no duplicates and is
  sorted in the lexicographic order of strings.
\<close>

theorem overlay_install_sorted_dedup:
  assumes "BuildImageTask img task ov \<in> set (trace (test_image e a cfg ds))"
  shows "\<exists>p install tr L.
           package a = Some p
         \<and> resolve_step e (package_names_of p) = (Inr install, tr)
         \<and> ov \<noteq> []
         \<and> last ov = ''IMAGE_INSTALL:append = \" '' @ py_join '' '' L @ ''\"''
         \<and> set L = set install \<and> distinct L \<and> sorted L"
  using assms
proof (rule dispatch_reached)
  fix install tr ds1
  assume valid: "valid_args a"
    and res: "resolve_step e (package_names_of (the (package a))) = (Inr install, tr)"
    and ov: "ov = extra_append_of (logdir_of cfg) (py_join '' '' (sorted_set install))"
  obtain p where p: "package a = Some p"
    using valid by (cases "package a") (simp_all add: valid_args_def)
  show ?thesis
    using p res ov sorted_set_props [of install] last_extra_append
    by (intro exI [of _ p] exI [of _ install] exI [of _ tr] exI [of _ "sorted_set install"])
       simp
qed

theorem overlay_install_sorted_dedup_witness:
  "BuildImageTask ''core-image-minimal'' ''testimage'' example_overlay
     \<in> set (trace (test_image example_env example_args example_cfg {}))
   \<and> (\<exists>L. last example_overlay = ''IMAGE_INSTALL:append = \" '' @ py_join '' '' L @ ''\"''
          \<and> set L = {''bash'', ''bash-ptest'', ''zlib''} \<and> distinct L \<and> sorted L)"
proof -
  obtain p install tr L where p: "package example_args = Some p"
    and res: "resolve_step example_env (package_names_of p) = (Inr install, tr)"
    and L: "last example_overlay = ''IMAGE_INSTALL:append = \" '' @ py_join '' '' L @ ''\"''"
           "set L = set install" "distinct L" "sorted L"
    using overlay_install_sorted_dedup [OF example_dispatch] by blast
  have "p = ''bash, zlib,bash''" using p by (simp add: example_args_def)
  then have "install = [''bash'', ''bash-ptest'', ''zlib'', ''bash'', ''bash-ptest'']"
    using res by (simp add: example_names example_resolve)
  then have "set L = {''bash'', ''bash-ptest'', ''zlib''}" using L(2) by auto
  with L example_dispatch show ?thesis by blast
qed

lemma filter_depends_extra_append:
  "filter is_depends_stmt (extra_append_of logdir pkgs) = [depends_stmt]"
  by (simp add: extra_append_of_def is_depends_stmt_def stmt_key_def depends_stmt_def
        suffix_to_prefix)

text \<open>
  C5. Whenever the invoker is called, exactly one statement of the overlay sets a
  \<open>depends\<close> flag, and it is the statement that makes \<open>do_testimage\<close> depend
  on \<open>do_image_complete\<close> of the same recipe, whatever the image name and the
  packages are.
\<close>

theorem overlay_one_depends_stmt:
  assumes "BuildImageTask img task ov \<in> set (trace (test_image e a cfg ds))"
  shows "filter is_depends_stmt ov = [depends_stmt] \<and> count_list ov depends_stmt = 1"
  using assms
proof (rule dispatch_reached)
  fix install
  assume ov: "ov = extra_append_of (logdir_of cfg) (py_join '' '' (sorted_set install))"
  have "count_list ov depends_stmt = 1"
    unfolding ov by (simp add: extra_append_of_def depends_stmt_def)
  then show ?thesis using ov filter_depends_extra_append by simp
qed


theorem overlay_one_depends_stmt_witness:
  "BuildImageTask ''core-image-minimal'' ''testimage'' example_overlay
     \<in> set (trace (test_image example_env example_args example_cfg {}))
   \<and> filter is_depends_stmt example_overlay
       = [''do_testimage[depends] += \" ${PN}:do_image_complete\"'']"
  using example_dispatch overlay_one_depends_stmt [OF example_dispatch]
  by (simp add: depends_stmt_def)

text \<open>
  C8. Whenever the invoker is called and returns a result code, \<open>test_image\<close>
  returns that code unchanged; the line that reports the log directory is logged exactly
  once when the code is zero, and not at all otherwise.
\<close>

theorem returns_invoker_code:
  assumes "BuildImageTask img task ov \<in> set (trace (test_image e a cfg ds))"
    and "build_image_task e img task ov = Inr (res, outputdir)"
  shows "result (test_image e a cfg ds) = Inr res
       \<and> count_list (trace (test_image e a cfg ds))
            (LogInfo (''Testimage completed. Logs are in '' @ logdir_of cfg))
          = (if res = 0 then 1 else 0)"
  using assms(1)
proof (rule dispatch_reached)
  fix install tr ds1
  assume res: "resolve_step e (package_names_of (the (package a))) = (Inr install, tr)"
    and mk: "os_makedirs e (logdir_of cfg) True ds = Inr ds1"
    and run: "test_image e a cfg ds = build_and_test e img cfg ds tr install"
    and task: "task = ''testimage''"
    and ov: "ov = extra_append_of (logdir_of cfg) (py_join '' '' (sorted_set install))"
  let ?done = "LogInfo (''Testimage completed. Logs are in '' @ logdir_of cfg)"
  have call: "build_image_task e img ''testimage'' ov = Inr (res, outputdir)"
    using assms(2) task by simp
  have code: "result (test_image e a cfg ds) = Inr res"
    using build_and_test_mkdir_ok(2) [OF mk ov] run call by simp
  have "count_list tr ?done = 0"
    using resolve_step_no_dispatch(3) [OF res] by (simp add: count_list_0_iff)
  moreover have "trace (test_image e a cfg ds) =
           tr @ [Makedirs (logdir_of cfg),
                 LogInfo (''Building and testing image '' @ img @ '' with packages: ''
                          @ py_join '' '' install),
                 BuildImageTask img ''testimage'' ov]
              @ (if res = 0 then [?done] else [])"
    using build_and_test_mkdir_ok(1) [OF mk ov] run call
    by (simp add: completion_events_def)
  ultimately have "count_list (trace (test_image e a cfg ds)) ?done = (if res = 0 then 1 else 0)"
    by simp
  with code show ?thesis by simp
qed

theorem returns_invoker_code_witness:
  "BuildImageTask ''core-image-minimal'' ''testimage'' example_overlay
     \<in> set (trace (test_image example_env example_args example_cfg {}))
   \<and> build_image_task example_env ''core-image-minimal'' ''testimage'' example_overlay
       = Inr (0, ''/ws/tmp/deploy'')
   \<and> result (test_image example_env example_args example_cfg {}) = Inr 0
   \<and> count_list (trace (test_image example_env example_args example_cfg {}))
        (LogInfo ''Testimage completed. Logs are in /ws/testimage-logs'') = 1"
proof -
  have call: "build_image_task example_env ''core-image-minimal'' ''testimage'' example_overlay
                = Inr (0, ''/ws/tmp/deploy'')"
    by (simp add: example_env_def)
  show ?thesis
    using example_dispatch call returns_invoker_code [OF example_dispatch call]
    by (simp add: example_logdir)
qed

subsection \<open>Claims about input validation\<close>

text \<open>
  C6. With a missing image name, a missing package argument, or a package argument that
  yields no non-blank trimmed name, \<open>test_image\<close> raises a \<open>DevtoolError\<close>
  with one of its three input messages; no collaborator has been called (the trace is
  empty, so no provider was acquired and no lookup made) and no directory was created.
\<close>

theorem invalid_input_fails_first:
  assumes "\<not> truthy (imagename a) \<or> \<not> truthy (package a)
           \<or> (\<exists>p. package a = Some p \<and> package_names_of p = [])"
  shows "(\<exists>m \<in> {''Image recipe to test must be specified'',
                  ''Package(s) to install must be specified via -p/--package'',
                  ''No valid package name(s) provided''}.
            result (test_image e a cfg ds) = Inl (DevtoolError m))
       \<and> trace (test_image e a cfg ds) = []
       \<and> dirs_after (test_image e a cfg ds) = ds"
proof -
  have inv: "\<not> valid_args a" using assms by (auto simp: valid_args_def)
  have "\<exists>m \<in> {''Image recipe to test must be specified'',
                ''Package(s) to install must be specified via -p/--package'',
                ''No valid package name(s) provided''}.
          result (test_image e a cfg ds) = Inl (DevtoolError m)"
    using inv by (auto simp: test_image_def valid_args_def Let_def)
  then show ?thesis using test_image_invalid(1,2) [OF inv] by simp
qed

theorem invalid_input_fails_first_witness:
  "(\<not> truthy (imagename \<lparr>imagename = None, package = Some ''bash''\<rparr>)
    \<and> trace (test_image example_env \<lparr>imagename = None, package = Some ''bash''\<rparr>
               example_cfg {}) = [])
   \<and> (\<not> truthy (package \<lparr>imagename = Some ''core-image-minimal'', package = Some []\<rparr>)
    \<and> trace (test_image example_env
               \<lparr>imagename = Some ''core-image-minimal'', package = Some []\<rparr>
               example_cfg {}) = [])
   \<and> (package_names_of '' , '' = []
    \<and> trace (test_image example_env
               \<lparr>imagename = Some ''core-image-minimal'', package = Some '' , ''\<rparr>
               example_cfg {}) = []
    \<and> dirs_after (test_image example_env
               \<lparr>imagename = Some ''core-image-minimal'', package = Some '' , ''\<rparr>
               example_cfg {}) = {})"
proof -
  let ?a1 = "\<lparr>imagename = None, package = Some ''bash''\<rparr>"
  let ?a2 = "\<lparr>imagename = Some ''core-image-minimal'', package = Some []\<rparr>"
  let ?a3 = "\<lparr>imagename = Some ''core-image-minimal'', package = Some '' , ''\<rparr>"
  have blank: "package_names_of '' , '' = []"
    by (simp add: package_names_of_def py_split_on_def py_strip_def py_isspace_def)
  have h1: "\<not> truthy (imagename ?a1) \<or> \<not> truthy (package ?a1)
            \<or> (\<exists>p. package ?a1 = Some p \<and> package_names_of p = [])"
    by simp
  have h2: "\<not> truthy (imagename ?a2) \<or> \<not> truthy (package ?a2)
            \<or> (\<exists>p. package ?a2 = Some p \<and> package_names_of p = [])"
    by simp
  have h3: "\<not> truthy (imagename ?a3) \<or> \<not> truthy (package ?a3)
            \<or> (\<exists>p. package ?a3 = Some p \<and> package_names_of p = [])"
    using blank by simp
  show ?thesis
    using blank
      invalid_input_fails_first [OF h1, of example_env example_cfg "{}"]
      invalid_input_fails_first [OF h2, of example_env example_cfg "{}"]
      invalid_input_fails_first [OF h3, of example_env example_cfg "{}"]
    by simp
qed

text \<open>
  C10. With a missing image name the error raised is the one about the image name,
  whatever the package argument is, in particular when it is missing as well.
\<close>

theorem image_check_first:
  assumes "\<not> truthy (imagename a)"
  shows "result (test_image e a cfg ds)
           = Inl (DevtoolError ''Image recipe to test must be specified'')"
  using assms by (simp add: test_image_def)

theorem image_check_first_witness:
  "\<not> truthy (imagename \<lparr>imagename = None, package = None\<rparr>)
   \<and> \<not> truthy (package \<lparr>imagename = None, package = None\<rparr>)
   \<and> result (test_image example_env \<lparr>imagename = None, package = None\<rparr> example_cfg {})
       = Inl (DevtoolError ''Image recipe to test must be specified'')"
proof -
  have h: "\<not> truthy (imagename \<lparr>imagename = None, package = None\<rparr>)" by simp
  show ?thesis
    using image_check_first [OF h, of example_env example_cfg "{}"] by simp
qed

subsection \<open>Claims about the provider handle and the log directory\<close>

text \<open>
  C7. Whenever the provider handle has been acquired, \<open>shutdown\<close> is called exactly
  once, whether the resolution returned a list or raised: the trace is the acquisition,
  then events of the resolution loop only, then the one \<open>shutdown\<close>, then events
  among which there is no further lookup.
\<close>

theorem shutdown_exactly_once:
  assumes "SetupTinfoil \<in> set (trace (test_image e a cfg ds))"
    and "setup_tinfoil e = None"
  shows "count_list (trace (test_image e a cfg ds)) Shutdown = 1
       \<and> (\<exists>evs rest. trace (test_image e a cfg ds) = SetupTinfoil # evs @ Shutdown # rest
             \<and> list_all resolution_event evs \<and> looked_up rest = [])"
proof -
  have valid: "valid_args a" using assms(1) by (rule nonempty_trace_valid)
  let ?pns = "package_names_of (the (package a))"
  obtain evs where evs: "snd (resolve_step e ?pns) = SetupTinfoil # evs @ [Shutdown]"
    and res: "list_all resolution_event evs"
    using resolve_step_shape [OF assms(2)] by blast
  have no_sd: "Shutdown \<notin> set evs" using res by (auto simp: list_all_iff)
  have "\<exists>rest. trace (test_image e a cfg ds) = SetupTinfoil # evs @ Shutdown # rest
               \<and> Shutdown \<notin> set rest \<and> looked_up rest = []"
    using valid
  proof (cases rule: test_image_cases [where e = e and cfg = cfg and ds = ds])
    case (resolve_raises exc tr)
    with evs show ?thesis by simp
  next
    case (mkdir_raises install tr exc)
    with evs show ?thesis by simp
  next
    case (dispatched install tr ds1)
    let ?ov = "extra_append_of (logdir_of cfg) (py_join '' '' (sorted_set install))"
    have "trace (test_image e a cfg ds) =
           tr @ [Makedirs (logdir_of cfg),
                 LogInfo (''Building and testing image '' @ the (imagename a)
                          @ '' with packages: '' @ py_join '' '' install),
                 BuildImageTask (the (imagename a)) ''testimage'' ?ov]
              @ completion_events e (the (imagename a)) ?ov (logdir_of cfg)"
      using dispatched build_and_test_mkdir_ok(1) [OF dispatched(2) refl] by simp
    moreover have "tr = SetupTinfoil # evs @ [Shutdown]" using evs dispatched(1) by simp
    ultimately show ?thesis
      by (auto simp: completion_events_def split: sum.splits prod.splits)
  qed
  then obtain rest where tr: "trace (test_image e a cfg ds) = SetupTinfoil # evs @ Shutdown # rest"
    and rest: "Shutdown \<notin> set rest" "looked_up rest = []"
    by blast
  have "count_list (trace (test_image e a cfg ds)) Shutdown = 1"
    using tr no_sd rest(1) by (simp add: count_list_0_iff)
  with tr res rest(2) show ?thesis by blast
qed


theorem shutdown_exactly_once_witness:
  "(SetupTinfoil \<in> set (trace (test_image example_env example_args example_cfg {}))
    \<and> setup_tinfoil example_env = None
    \<and> result (test_image example_env example_args example_cfg {}) = Inr 0
    \<and> count_list (trace (test_image example_env example_args example_cfg {})) Shutdown = 1)
   \<and> (SetupTinfoil \<in> set (trace (test_image example_env unknown_args example_cfg {}))
    \<and> result (test_image example_env unknown_args example_cfg {})
        = Inl (DevtoolError ''Unable to find or parse recipe for package nonexistent-pkg'')
    \<and> count_list (trace (test_image example_env unknown_args example_cfg {})) Shutdown = 1)"
proof -
  have ok: "SetupTinfoil \<in> set (trace (test_image example_env example_args example_cfg {}))"
    by (simp add: example_run)
  have bad: "SetupTinfoil \<in> set (trace (test_image example_env unknown_args example_cfg {}))"
    by (simp add: unknown_run)
  have acq: "setup_tinfoil example_env = None" by (simp add: example_env_def)
  have r1: "result (test_image example_env example_args example_cfg {}) = Inr 0"
    by (simp add: example_run)
  have r2: "result (test_image example_env unknown_args example_cfg {})
        = Inl (DevtoolError ''Unable to find or parse recipe for package nonexistent-pkg'')"
    by (simp add: unknown_run)
  show ?thesis
    using ok bad acq r1 r2 shutdown_exactly_once [OF ok acq] shutdown_exactly_once [OF bad acq]
    by blast
qed

lemma os_makedirs_existing: "d \<in> ds \<Longrightarrow> os_makedirs e d True ds = Inr ds"
  by (simp add: os_makedirs_def os_mkdir_def)

lemma os_makedirs_existing_strict:
  "d \<in> ds \<Longrightarrow> os_makedirs e d False ds = Inl (mkdir_exists_error e d)"
  by (simp add: os_makedirs_def os_mkdir_def)

text \<open>
  C9. The directory created is the log directory. When its creation raises, the error
  raised by \<open>test_image\<close> is a \<open>DevtoolError\<close> whose message carries the path
  and the text of the cause, and the invoker is not called. When the directory exists
  already, \<open>os.makedirs\<close> with \<open>exist_ok\<close> succeeds without changing the
  disk, and the invoker is called.
\<close>

theorem logdir_creation:
  assumes "Makedirs d \<in> set (trace (test_image e a cfg ds))"
  shows "d = logdir_of cfg
       \<and> (\<forall>exc. os_makedirs e d True ds = Inl exc \<longrightarrow>
             result (test_image e a cfg ds)
               = Inl (DevtoolError (''Failed to create test logs directory '' @ d @ '': ''
                                    @ exn_str exc))
           \<and> (\<forall>i t ov. BuildImageTask i t ov \<notin> set (trace (test_image e a cfg ds))))
       \<and> (d \<in> ds \<longrightarrow>
             os_makedirs e d True ds = Inr ds
           \<and> dirs_after (test_image e a cfg ds) = ds
           \<and> (\<exists>i ov. BuildImageTask i ''testimage'' ov \<in> set (trace (test_image e a cfg ds))))"
proof -
  have valid: "valid_args a" using assms by (rule nonempty_trace_valid)
  from valid show ?thesis
  proof (cases rule: test_image_cases [where e = e and cfg = cfg and ds = ds])
    case (resolve_raises exc tr)
    with assms resolve_step_no_dispatch(2) show ?thesis by fastforce
  next
    case (mkdir_raises install tr exc)
    have d: "d = logdir_of cfg"
      using assms mkdir_raises(3) resolve_step_no_dispatch(2) [OF mkdir_raises(1)] by auto
    have "\<And>i t ov. BuildImageTask i t ov \<notin> set (trace (test_image e a cfg ds))"
      using mkdir_raises(3) resolve_step_no_dispatch(1) [OF mkdir_raises(1)] by auto
    moreover have "d \<notin> ds"
      using mkdir_raises(2) d os_makedirs_existing [of d ds e] by auto
    ultimately show ?thesis using d mkdir_raises(2,3) by auto
  next
    case (dispatched install tr ds1)
    let ?ov = "extra_append_of (logdir_of cfg) (py_join '' '' (sorted_set install))"
    have tr: "trace (test_image e a cfg ds) =
           tr @ [Makedirs (logdir_of cfg),
                 LogInfo (''Building and testing image '' @ the (imagename a)
                          @ '' with packages: '' @ py_join '' '' install),
                 BuildImageTask (the (imagename a)) ''testimage'' ?ov]
              @ completion_events e (the (imagename a)) ?ov (logdir_of cfg)"
      using dispatched build_and_test_mkdir_ok(1) [OF dispatched(2) refl] by simp
    have "Makedirs d \<notin> set (completion_events e (the (imagename a)) ?ov (logdir_of cfg))"
      using completion_events_cases by blast
    then have d: "d = logdir_of cfg"
      using assms tr resolve_step_no_dispatch(2) [OF dispatched(1)] by auto
    have after: "dirs_after (test_image e a cfg ds) = ds1"
      using dispatched build_and_test_mkdir_ok(3) [OF dispatched(2) refl] by simp
    have "\<exists>i ov. BuildImageTask i ''testimage'' ov \<in> set (trace (test_image e a cfg ds))"
      using tr by auto
    then show ?thesis
      using d dispatched(2) after os_makedirs_existing [of d ds e] by auto
  qed
qed

theorem logdir_creation_witness:
  "(Makedirs ''/ws/testimage-logs''
      \<in> set (trace (test_image readonly_env example_args example_cfg {}))
    \<and> os_makedirs readonly_env ''/ws/testimage-logs'' True {}
        = Inl (OtherError ''[Errno 30] Read-only file system'')
    \<and> result (test_image readonly_env example_args example_cfg {})
        = Inl (DevtoolError
            ''Failed to create test logs directory /ws/testimage-logs: [Errno 30] Read-only file system'')
    \<and> (\<forall>i t ov. BuildImageTask i t ov
          \<notin> set (trace (test_image readonly_env example_args example_cfg {}))))
   \<and> (Makedirs ''/ws/testimage-logs''
      \<in> set (trace (test_image readonly_env example_args example_cfg {''/ws/testimage-logs''}))
    \<and> ''/ws/testimage-logs'' \<in> {''/ws/testimage-logs''}
    \<and> dirs_after (test_image readonly_env example_args example_cfg {''/ws/testimage-logs''})
        = {''/ws/testimage-logs''}
    \<and> (\<exists>i ov. BuildImageTask i ''testimage'' ov
          \<in> set (trace (test_image readonly_env example_args example_cfg
                          {''/ws/testimage-logs''}))))"
proof -
  have fresh: "result (test_image readonly_env example_args example_cfg {})
        = Inl (DevtoolError (''Failed to create test logs directory '' @ ''/ws/testimage-logs''
                             @ '': '' @ exn_str (OtherError ''[Errno 30] Read-only file system'')))
      \<and> (\<forall>i t ov. BuildImageTask i t ov
            \<notin> set (trace (test_image readonly_env example_args example_cfg {})))"
    using logdir_creation [OF readonly_fresh_reaches_makedirs] readonly_refused by blast
  have there: "''/ws/testimage-logs'' \<in> {''/ws/testimage-logs''}" by simp
  have existing:
    "dirs_after (test_image readonly_env example_args example_cfg {''/ws/testimage-logs''})
        = {''/ws/testimage-logs''}
      \<and> (\<exists>i ov. BuildImageTask i ''testimage'' ov
            \<in> set (trace (test_image readonly_env example_args example_cfg
                            {''/ws/testimage-logs''})))"
    using logdir_creation [OF readonly_existing_reaches_makedirs] there by blast
  show ?thesis
    using readonly_fresh_reaches_makedirs readonly_existing_reaches_makedirs readonly_refused
      fresh existing
    by simp
qed

text \<open>
  C4, with the message as the source raises it and with the exit through
  \<open>finally\<close>. Let \<open>bad\<close> be the first requested name whose lookup returns no
  record, all names before it resolving, and let the provider have been acquired. Then
  \<open>test_image\<close> raises: the names looked up are those before \<open>bad\<close> and
  \<open>bad\<close> itself, none after it; \<open>os.makedirs\<close> and the invoker are not
  called, so no install list is used and the log directory is not created. The exception
  raised is \<open>DevtoolError\<close> with the message
  \<open>Unable to find or parse recipe for package bad\<close> (capital U), unless
  \<open>tinfoil.shutdown()\<close> raises in the \<open>finally\<close> clause, in which case its
  exception is the one raised.
\<close>

theorem unresolved_package_aborts:
  assumes "truthy (imagename a)"
    and "package a = Some p"
    and "package_names_of p = pre @ bad # post"
    and "\<forall>pn\<in>set pre. parse_recipe e pn = Inr (Some (rd pn))"
    and "parse_recipe e bad = Inr None"
    and "setup_tinfoil e = None"
  shows "result (test_image e a cfg ds)
           = (case shutdown e of
                None \<Rightarrow> Inl (DevtoolError (''Unable to find or parse recipe for package '' @ bad))
              | Some exc \<Rightarrow> Inl exc)
       \<and> looked_up (trace (test_image e a cfg ds)) = pre @ [bad]
       \<and> (\<forall>d. Makedirs d \<notin> set (trace (test_image e a cfg ds)))
       \<and> (\<forall>i t ov. BuildImageTask i t ov \<notin> set (trace (test_image e a cfg ds)))
       \<and> dirs_after (test_image e a cfg ds) = ds"
proof -
  let ?err = "DevtoolError (''Unable to find or parse recipe for package '' @ bad)"
  let ?evs = "concat (map (\<lambda>pn. block_events (rd pn) pn) pre)"
  let ?tr = "SetupTinfoil # ?evs @ [ParseRecipe bad, Shutdown]"
  let ?raised = "case shutdown e of None \<Rightarrow> ?err | Some exc \<Rightarrow> exc"
  have "p \<noteq> []" using assms(3) package_names_of_Nil by auto
  then have valid: "valid_args a" using assms(1,2,3) by (simp add: valid_args_def)
  have loop: "collect_install_packages e [SetupTinfoil] (pre @ bad # post)
                = (Inl ?err, [SetupTinfoil] @ ?evs @ [ParseRecipe bad])"
    unfolding collect_install_packages_def
    using collect_loop_unresolved [OF assms(4,5)] .
  have step: "resolve_step e (package_names_of p) = (Inl ?raised, ?tr)"
    using assms(3,6) loop by (simp add: resolve_step_def split: option.splits)
  have run: "test_image e a cfg ds = \<lparr>result = Inl ?raised, trace = ?tr, dirs_after = ds\<rparr>"
    using valid step assms(2) by (simp add: test_image_valid)
  have res: "result (test_image e a cfg ds)
               = (case shutdown e of None \<Rightarrow> Inl ?err | Some exc \<Rightarrow> Inl exc)"
    using run by (simp split: option.splits)
  have looked: "looked_up (xs @ ys) = looked_up xs @ looked_up ys" for xs ys
    by (induction xs rule: looked_up.induct) simp_all
  have blocks: "looked_up ?evs = pre"
    by (induction pre) (simp_all add: looked block_events_def)
  have names: "looked_up ?tr = pre @ [bad]"
    by (simp add: looked blocks)
  have no_mk: "\<And>d. Makedirs d \<notin> set ?tr"
    by (auto simp: block_events_def)
  have no_call: "\<And>i t ov. BuildImageTask i t ov \<notin> set ?tr"
    by (auto simp: block_events_def)
  show ?thesis using res names no_mk no_call run by simp
qed

theorem unresolved_package_aborts_witness:
  "truthy (imagename unknown_args)
   \<and> package unknown_args = Some ''zlib,nonexistent-pkg,bash''
   \<and> package_names_of ''zlib,nonexistent-pkg,bash'' = [''zlib''] @ ''nonexistent-pkg'' # [''bash'']
   \<and> parse_recipe example_env ''zlib'' = Inr (Some (example_rd ''zlib''))
   \<and> parse_recipe example_env ''nonexistent-pkg'' = Inr None
   \<and> setup_tinfoil example_env = None
   \<and> result (test_image example_env unknown_args example_cfg {})
       = Inl (DevtoolError ''Unable to find or parse recipe for package nonexistent-pkg'')
   \<and> looked_up (trace (test_image example_env unknown_args example_cfg {}))
       = [''zlib'', ''nonexistent-pkg'']
   \<and> dirs_after (test_image example_env unknown_args example_cfg {}) = {}
   \<and> parse_recipe shutdown_raises_env ''zlib'' = Inr (Some (example_rd ''zlib''))
   \<and> parse_recipe shutdown_raises_env ''nonexistent-pkg'' = Inr None
   \<and> setup_tinfoil shutdown_raises_env = None
   \<and> result (test_image shutdown_raises_env unknown_args example_cfg {})
       = Inl (OtherError ''shutdown failed'')
   \<and> looked_up (trace (test_image shutdown_raises_env unknown_args example_cfg {}))
       = [''zlib'', ''nonexistent-pkg'']
   \<and> dirs_after (test_image shutdown_raises_env unknown_args example_cfg {}) = {}"
proof -
  have h1: "truthy (imagename unknown_args)" by (simp add: unknown_args_def)
  have h2: "package unknown_args = Some ''zlib,nonexistent-pkg,bash''"
    by (simp add: unknown_args_def)
  have h4: "\<forall>pn\<in>set [''zlib'']. parse_recipe example_env pn = Inr (Some (example_rd pn))"
    by (simp add: example_env_def)
  have h5: "parse_recipe example_env ''nonexistent-pkg'' = Inr None"
    by (simp add: example_env_def)
  have h6: "setup_tinfoil example_env = None" by (simp add: example_env_def)
  have quiet: "shutdown example_env = None" by (simp add: example_env_def)
  have g4: "\<forall>pn\<in>set [''zlib'']. parse_recipe shutdown_raises_env pn = Inr (Some (example_rd pn))"
    by (simp add: shutdown_raises_env_def)
  have g5: "parse_recipe shutdown_raises_env ''nonexistent-pkg'' = Inr None"
    by (simp add: shutdown_raises_env_def)
  have g6: "setup_tinfoil shutdown_raises_env = None" by (simp add: shutdown_raises_env_def)
  have loud: "shutdown shutdown_raises_env = Some (OtherError ''shutdown failed'')"
    by (simp add: shutdown_raises_env_def)
  have first: "result (test_image example_env unknown_args example_cfg {})
       = Inl (DevtoolError ''Unable to find or parse recipe for package nonexistent-pkg'')
     \<and> looked_up (trace (test_image example_env unknown_args example_cfg {}))
       = [''zlib'', ''nonexistent-pkg'']
     \<and> dirs_after (test_image example_env unknown_args example_cfg {}) = {}"
    using unresolved_package_aborts [OF h1 h2 unknown_names h4 h5 h6, of example_cfg "{}"]
    by (simp add: quiet)
  have second: "result (test_image shutdown_raises_env unknown_args example_cfg {})
       = Inl (OtherError ''shutdown failed'')
     \<and> looked_up (trace (test_image shutdown_raises_env unknown_args example_cfg {}))
       = [''zlib'', ''nonexistent-pkg'']
     \<and> dirs_after (test_image shutdown_raises_env unknown_args example_cfg {}) = {}"
    using unresolved_package_aborts [OF h1 h2 unknown_names g4 g5 g6, of example_cfg "{}"]
    by (simp add: loud)
  show ?thesis
    using h1 h2 unknown_names h4 h5 h6 g4 g5 g6 first second by simp
qed

text \<open>
  C4, as stated, at the input of Scenario 4, where the name \<open>nonexistent-pkg\<close> does
  not resolve. The message raised is not the one quoted, which starts with a small u.
  With a provider whose \<open>shutdown\<close> raises, the exception raised is that of
  \<open>shutdown\<close> and names no package. With a provider that cannot be set up, the
  exception raised is that of \<open>setup_tinfoil\<close> and no name is looked up.
\<close>

theorem scenario4_message_counterexample:
  "parse_recipe example_env ''nonexistent-pkg'' = Inr None
   \<and> result (test_image example_env scenario4_args example_cfg {})
       = Inl (DevtoolError ''Unable to find or parse recipe for package nonexistent-pkg'')
   \<and> result (test_image example_env scenario4_args example_cfg {})
       \<noteq> Inl (DevtoolError ''unable to find or parse recipe for package nonexistent-pkg'')
   \<and> parse_recipe shutdown_raises_env ''nonexistent-pkg'' = Inr None
   \<and> result (test_image shutdown_raises_env scenario4_args example_cfg {})
       = Inl (OtherError ''shutdown failed'')
   \<and> parse_recipe setup_raises_env ''nonexistent-pkg'' = Inr None
   \<and> result (test_image setup_raises_env scenario4_args example_cfg {})
       = Inl (OtherError ''bitbake server failed to start'')
   \<and> looked_up (trace (test_image setup_raises_env scenario4_args example_cfg {})) = []"
proof -
  have quiet: "resolve_step example_env [''nonexistent-pkg''] =
     (Inl (DevtoolError ''Unable to find or parse recipe for package nonexistent-pkg''),
      [SetupTinfoil, ParseRecipe ''nonexistent-pkg'', Shutdown])"
    by (simp add: resolve_step_def collect_install_packages_def example_env_def)
  have loud: "resolve_step shutdown_raises_env [''nonexistent-pkg''] =
     (Inl (OtherError ''shutdown failed''),
      [SetupTinfoil, ParseRecipe ''nonexistent-pkg'', Shutdown])"
    by (simp add: resolve_step_def collect_install_packages_def shutdown_raises_env_def)
  have down: "resolve_step setup_raises_env [''nonexistent-pkg''] =
     (Inl (OtherError ''bitbake server failed to start''), [SetupTinfoil])"
    by (simp add: resolve_step_def setup_raises_env_def)
  have r1: "result (test_image example_env scenario4_args example_cfg {})
       = Inl (DevtoolError ''Unable to find or parse recipe for package nonexistent-pkg'')"
    using quiet scenario4_names by (simp add: test_image_def scenario4_args_def Let_def)
  have r2: "result (test_image shutdown_raises_env scenario4_args example_cfg {})
       = Inl (OtherError ''shutdown failed'')"
    using loud scenario4_names by (simp add: test_image_def scenario4_args_def Let_def)
  have r3: "test_image setup_raises_env scenario4_args example_cfg {}
       = \<lparr>result = Inl (OtherError ''bitbake server failed to start''),
          trace = [SetupTinfoil], dirs_after = {}\<rparr>"
    using down scenario4_names by (simp add: test_image_def scenario4_args_def Let_def)
  have p1: "parse_recipe example_env ''nonexistent-pkg'' = Inr None"
    by (simp add: example_env_def)
  have p2: "parse_recipe shutdown_raises_env ''nonexistent-pkg'' = Inr None"
    by (simp add: shutdown_raises_env_def)
  have p3: "parse_recipe setup_raises_env ''nonexistent-pkg'' = Inr None"
    by (simp add: setup_raises_env_def)
  show ?thesis using r1 r2 r3 p1 p2 p3 by simp
qed

end
